theory Spec2Isabelle
  imports Complex_Main "HOL-Library.AList" "HOL-Library.Multiset"
begin

section \<open>The focus timer (src/hooks/useFocusTimer.ts)\<close>

text \<open>
  The hook keeps four pieces of React state (\<open>duration\<close>, \<open>timeLeft\<close>, \<open>status\<close>,
  \<open>coins\<close>) and one mutable ref (\<open>intervalRef\<close>). Durations and remaining time are
  seconds; they are JavaScript numbers fed with whole minutes times sixty, modelled as
  \<open>int\<close> (a negative or zero value is possible, the code guards against it).
  The browser's timer table is part of the state: \<open>intervals\<close> lists the repeating
  timers that are scheduled and not cleared, each with the \<open>duration\<close> its callback closed
  over, and \<open>nextHandle\<close> is the next handle \<open>window.setInterval\<close> returns (handles are
  positive). What the hook sends out is recorded too: \<open>logged\<close> holds the arguments of
  the calls of \<open>logTimerSession\<close>, \<open>toasts\<close> the notifications, both oldest first.
  A state update is taken to be applied before the next event is handled, and an
  updater function to run once. The cleanup at unmount (lines 17 to 21) ends the hook's
  life and is no event here.
\<close>

datatype TimerStatus = idle | running | paused | completed

datatype toast = Timer_Paused | Timer_Stopped | Session_Completed int

record focus_timer =
  duration :: int
  timeLeft :: int
  status :: TimerStatus
  coins :: int
  intervalRef :: "nat option"
  intervals :: "(nat \<times> int) list"
  nextHandle :: nat
  logged :: "rat list"
  toasts :: "toast list"

definition initial_timer :: focus_timer where
  "initial_timer = \<lparr>duration = 25 * 60, timeLeft = 25 * 60, status = idle, coins = 0,
     intervalRef = None, intervals = [], nextHandle = 1, logged = [], toasts = []\<rparr>"

text \<open>\<open>clearInterval(h)\<close>: the timer with that handle is gone; \<open>null\<close> clears nothing.\<close>

definition clearInterval :: "nat option \<Rightarrow> (nat \<times> int) list \<Rightarrow> (nat \<times> int) list" where
  "clearInterval h ivs =
     (case h of None \<Rightarrow> ivs | Some i \<Rightarrow> filter (\<lambda>p. fst p \<noteq> i) ivs)"

text \<open>\<open>if (intervalRef.current) clearInterval(intervalRef.current)\<close>: \<open>null\<close> and \<open>0\<close>
  are falsy.\<close>

definition clearIfSet :: "nat option \<Rightarrow> (nat \<times> int) list \<Rightarrow> (nat \<times> int) list" where
  "clearIfSet h ivs =
     (case h of None \<Rightarrow> ivs | Some i \<Rightarrow> if i = 0 then ivs else clearInterval (Some i) ivs)"

text \<open>Line 45: \<open>Math.max(1, Math.floor(duration / 10))\<close>, with \<open>duration\<close> the hook's
  state, in seconds. On \<open>int\<close>, \<open>div\<close> rounds down as \<open>Math.floor\<close> does.\<close>

definition earnedCoins_timer :: "int \<Rightarrow> int" where
  "earnedCoins_timer d = max 1 (d div 10)"

text \<open>The interval callback (lines 36 to 65), that is the updater handed to
  \<open>setTimeLeft\<close>; \<open>d\<close> is the \<open>duration\<close> the closure captured.\<close>

definition onTick :: "int \<Rightarrow> focus_timer \<Rightarrow> focus_timer" where
  "onTick d s =
     (let prev = timeLeft s in
      if prev \<le> 1 then
        (let s1 = s\<lparr>intervals := clearInterval (intervalRef s) (intervals s),
                     status := completed\<rparr>
         in if prev \<le> 0 then s1\<lparr>timeLeft := 0\<rparr>
            else s1\<lparr>coins := coins s1 + earnedCoins_timer d,
                    logged := logged s1 @ [of_int d / 60],
                    toasts := toasts s1 @ [Session_Completed (earnedCoins_timer d)],
                    timeLeft := 0\<rparr>)
      else s\<lparr>timeLeft := prev - 1\<rparr>)"

text \<open>The timer with handle \<open>h\<close> fires, if it is still scheduled.\<close>

definition fire :: "nat \<Rightarrow> focus_timer \<Rightarrow> focus_timer" where
  "fire h s = (case map_of (intervals s) h of None \<Rightarrow> s | Some d \<Rightarrow> onTick d s)"

text \<open>One second passes: every timer scheduled at its start fires once, oldest first.\<close>

definition tick :: "focus_timer \<Rightarrow> focus_timer" where
  "tick s = fold fire (map fst (intervals s)) s"

text \<open>\<open>startTimer\<close> as the closure of a render that saw status \<open>st\<close> and duration \<open>d\<close>
  (lines 29 to 68). The handler of an up-to-date render is \<open>startTimer\<close> below; two calls
  from the same render both see the old status.\<close>

definition startTimer_closure :: "TimerStatus \<Rightarrow> int \<Rightarrow> focus_timer \<Rightarrow> focus_timer" where
  "startTimer_closure st d s =
     (if st = idle \<or> st = paused then
        s\<lparr>status := running,
          intervals := clearIfSet (intervalRef s) (intervals s) @ [(nextHandle s, d)],
          intervalRef := Some (nextHandle s),
          nextHandle := Suc (nextHandle s)\<rparr>
      else s)"

definition startTimer :: "focus_timer \<Rightarrow> focus_timer" where
  "startTimer s = startTimer_closure (status s) (duration s) s"

definition pauseTimer :: "focus_timer \<Rightarrow> focus_timer" where
  "pauseTimer s =
     (if status s = running then
        s\<lparr>intervals := clearInterval (intervalRef s) (intervals s),
          status := paused,
          toasts := toasts s @ [Timer_Paused]\<rparr>
      else s)"

definition resumeTimer :: "focus_timer \<Rightarrow> focus_timer" where
  "resumeTimer s = (if status s = paused then startTimer s else s)"

definition stopTimer :: "focus_timer \<Rightarrow> focus_timer" where
  "stopTimer s =
     s\<lparr>intervals := clearInterval (intervalRef s) (intervals s),
       status := idle,
       timeLeft := duration s,
       toasts := toasts s @ [Timer_Stopped]\<rparr>"

definition resetTimer :: "focus_timer \<Rightarrow> focus_timer" where
  "resetTimer s = stopTimer s"

definition updateDuration :: "int \<Rightarrow> focus_timer \<Rightarrow> focus_timer" where
  "updateDuration minutes s =
     (if status s = idle then
        (let newDuration = minutes * 60
         in s\<lparr>duration := newDuration, timeLeft := newDuration\<rparr>)
      else s)"

text \<open>The effect of lines 23 to 27 runs after a render in which \<open>duration\<close> or \<open>status\<close>
  changed, and copies \<open>duration\<close> into \<open>timeLeft\<close> when the status is idle.\<close>

definition syncTimeLeft :: "focus_timer \<Rightarrow> focus_timer \<Rightarrow> focus_timer" where
  "syncTimeLeft old new =
     (if (duration new \<noteq> duration old \<or> status new \<noteq> status old) \<and> status new = idle
      then new\<lparr>timeLeft := duration new\<rparr> else new)"

datatype event = Start | Pause | Resume | Stop | Reset | UpdateDuration int | Tick

fun handler :: "event \<Rightarrow> focus_timer \<Rightarrow> focus_timer" where
  "handler Start s = startTimer s"
| "handler Pause s = pauseTimer s"
| "handler Resume s = resumeTimer s"
| "handler Stop s = stopTimer s"
| "handler Reset s = resetTimer s"
| "handler (UpdateDuration m) s = updateDuration m s"
| "handler Tick s = tick s"

definition step :: "event \<Rightarrow> focus_timer \<Rightarrow> focus_timer" where
  "step e s = syncTimeLeft s (handler e s)"

text \<open>The state of a freshly mounted hook after a sequence of events.\<close>

definition run :: "event list \<Rightarrow> focus_timer" where
  "run es = fold step es initial_timer"

text \<open>What holds of the timer table in every state the hook can reach: the only timer
  that may be scheduled is the one \<open>intervalRef\<close> names, it is scheduled exactly while the
  status is running, its callback closed over the current duration, and an idle timer
  shows the full duration.\<close>

definition timer_inv :: "focus_timer \<Rightarrow> bool" where
  "timer_inv s \<longleftrightarrow>
     0 < nextHandle s \<and>
     (case intervalRef s of None \<Rightarrow> True | Some h \<Rightarrow> 0 < h \<and> h < nextHandle s) \<and>
     (status s = idle \<longrightarrow> timeLeft s = duration s) \<and>
     (if status s = running
      then (case intervalRef s of None \<Rightarrow> False | Some h \<Rightarrow> intervals s = [(h, duration s)])
      else intervals s = [])"

section \<open>The study sessions store (useStudySessions)\<close>

text \<open>
  The fields of the interfaces \<open>StudySession\<close> and \<open>Module\<close>; \<open>id\<close> and \<open>duration\<close> carry
  a prefix, the names being taken, and so does \<open>notes\<close>. A session's duration is in minutes; it is a JavaScript
  number and the timer hands over seconds divided by sixty, so it is a rational here.
\<close>

record StudySession =
  session_id :: string
  user_id :: string
  module_id :: "string option"
  session_duration :: rat
  date :: string
  session_notes :: "string option"
  created_at :: "string option"
  earned_coins :: "int option"

record Module =
  mod_id :: string
  module_code :: string
  module_title :: string

text \<open>The row \<open>createStudySession\<close> sends to the remote table (line 90).\<close>

record new_session =
  new_user_id :: string
  new_module_id :: "string option"
  new_duration :: rat
  new_date :: string
  new_notes :: "string option"
  new_earned_coins :: int

record User =
  uid :: string

text \<open>
  The remote store. An awaited call either rejects, which throws at the \<open>await\<close>, or
  resolves; a query resolves to an object with the fields \<open>data\<close> and \<open>error\<close>, either of
  which may be \<open>null\<close>. The answers are parameters of the model.
\<close>

type_synonym exn = string

datatype 'a promise = Rejected exn | Resolved 'a

record 'a response =
  data :: "'a option"
  error :: "exn option"

record supabase =
  auth_getUser :: "User option promise"
  select_modules :: "Module list response promise"
  select_study_sessions :: "string \<Rightarrow> StudySession list response promise"
  insert_study_session :: "new_session \<Rightarrow> StudySession list response promise"

datatype store_toast = Load_Failed | Create_Failed | Session_Logged int

text \<open>
  The hook's state, with the notifications and the console lines it has produced. An
  entry of the cache is \<open>None\<close> where the code stored \<open>undefined\<close>, which \<open>data[0]\<close> is
  when the insert answers with an empty array.
\<close>

record store =
  sessions :: "StudySession option list"
  modules :: "Module list"
  isLoading :: bool
  notifications :: "store_toast list"
  console :: "exn list"

definition initial_store :: store where
  "initial_store = \<lparr>sessions = [], modules = [], isLoading = True, notifications = [],
     console = []\<rparr>"

text \<open>What a call returns: \<open>null\<close>, \<open>undefined\<close> or a row.\<close>

datatype js_value = Null | Undefined | Row StudySession

text \<open>\<open>fetchData\<close>, lines 30 to 57: the \<open>try\<close> block first, which may leave by an
  exception after it has changed the state, then the whole function with \<open>catch\<close> and
  \<open>finally\<close>. Only \<open>data\<close> is read from the two query answers.\<close>

definition fetchData_try :: "supabase \<Rightarrow> store \<Rightarrow> (exn + unit) \<times> store" where
  "fetchData_try sb st =
     (case auth_getUser sb of
        Rejected e \<Rightarrow> (Inl e, st)
      | Resolved None \<Rightarrow> (Inl ''No active session'', st)
      | Resolved (Some user) \<Rightarrow>
          (case select_modules sb of
             Rejected e \<Rightarrow> (Inl e, st)
           | Resolved modulesResp \<Rightarrow>
               (let st1 = st\<lparr>modules := (case data modulesResp of None \<Rightarrow> [] | Some ms \<Rightarrow> ms)\<rparr>
                in case select_study_sessions sb (uid user) of
                     Rejected e \<Rightarrow> (Inl e, st1)
                   | Resolved sessionsResp \<Rightarrow>
                       (Inr (), st1\<lparr>sessions :=
                          (case data sessionsResp of None \<Rightarrow> [] | Some ss \<Rightarrow> map Some ss)\<rparr>))))"

definition fetchData :: "supabase \<Rightarrow> store \<Rightarrow> (exn + unit) \<times> store" where
  "fetchData sb st =
     (case fetchData_try sb (st\<lparr>isLoading := True\<rparr>) of
        (Inl e, st1) \<Rightarrow>
          (Inr (), st1\<lparr>console := console st1 @ [e],
                       notifications := notifications st1 @ [Load_Failed],
                       isLoading := False\<rparr>)
      | (Inr u, st1) \<Rightarrow> (Inr u, st1\<lparr>isLoading := False\<rparr>))"

text \<open>Line 89: \<open>Math.max(1, Math.floor(duration / 10))\<close>, with \<open>duration\<close> the parameter
  of \<open>createStudySession\<close>, in minutes.\<close>

definition earnedCoins :: "rat \<Rightarrow> int" where
  "earnedCoins d = max 1 \<lfloor>d / 10\<rfloor>"

definition newSession ::
  "User \<Rightarrow> string option \<Rightarrow> rat \<Rightarrow> string \<Rightarrow> string option \<Rightarrow> new_session" where
  "newSession user mid d dt nts =
     \<lparr>new_user_id = uid user, new_module_id = mid, new_duration = d, new_date = dt,
      new_notes = nts, new_earned_coins = earnedCoins d\<rparr>"

text \<open>\<open>createStudySession\<close>, lines 84 to 104: the \<open>try\<close> block, then the function with
  its \<open>catch\<close>. When the answer holds neither an error nor data, the function falls off
  its end and returns \<open>undefined\<close>.\<close>

definition createStudySession_try ::
  "supabase \<Rightarrow> string option \<Rightarrow> rat \<Rightarrow> string \<Rightarrow> string option \<Rightarrow> store
   \<Rightarrow> (exn + js_value) \<times> store" where
  "createStudySession_try sb mid d dt nts st =
     (case auth_getUser sb of
        Rejected e \<Rightarrow> (Inl e, st)
      | Resolved None \<Rightarrow> (Inl ''No active session'', st)
      | Resolved (Some user) \<Rightarrow>
          (case insert_study_session sb (newSession user mid d dt nts) of
             Rejected e \<Rightarrow> (Inl e, st)
           | Resolved resp \<Rightarrow>
               (case error resp of
                  Some e \<Rightarrow> (Inl e, st)
                | None \<Rightarrow>
                    (case data resp of
                       None \<Rightarrow> (Inr Undefined, st)
                     | Some rows \<Rightarrow>
                         (let first = (case rows of [] \<Rightarrow> None | r # _ \<Rightarrow> Some r)
                          in (Inr (case first of None \<Rightarrow> Undefined | Some r \<Rightarrow> Row r),
                              st\<lparr>sessions := first # sessions st,
                                 notifications := notifications st @
                                   [Session_Logged (earnedCoins d)]\<rparr>))))))"

definition createStudySession ::
  "supabase \<Rightarrow> string option \<Rightarrow> rat \<Rightarrow> string \<Rightarrow> string option \<Rightarrow> store
   \<Rightarrow> (exn + js_value) \<times> store" where
  "createStudySession sb mid d dt nts st =
     (case createStudySession_try sb mid d dt nts st of
        (Inl e, st1) \<Rightarrow>
          (Inr Null, st1\<lparr>console := console st1 @ [e],
                         notifications := notifications st1 @ [Create_Failed]\<rparr>)
      | (Inr v, st1) \<Rightarrow> (Inr v, st1))"

text \<open>\<open>logTimerSession\<close>, lines 107 to 110; \<open>today\<close> is the date the clock gives, and
  \<open>moduleId || null\<close> turns a missing or empty id into \<open>null\<close>.\<close>

definition logTimerSession ::
  "supabase \<Rightarrow> string \<Rightarrow> rat \<Rightarrow> string option \<Rightarrow> store \<Rightarrow> (exn + js_value) \<times> store" where
  "logTimerSession sb today d mid st =
     createStudySession sb
       (case mid of None \<Rightarrow> None | Some m \<Rightarrow> if m = [] then None else Some m)
       d today (Some ''Logged from Focus Timer'') st"

subsection \<open>The ranking of modules\<close>

text \<open>
  \<open>moduleStats\<close> is a plain object \<open>{}\<close> used as a dictionary. Its own properties are an
  association list in the order the keys were first written, since an update keeps a
  key's place. Behind them stands \<open>Object.prototype\<close>, taken as the language defines it:
  reading a key that is no own property finds the member of that name there. So a value
  read from \<open>moduleStats\<close> is a number, or a member of \<open>Object.prototype\<close> (a function,
  or the prototype object itself for \<open>__proto__\<close>), or the string that \<open>+\<close> makes of a
  value that is no number and a duration. The string is kept as its two parts.
\<close>

datatype stat_value = Number rat | Inherited string | Text stat_value rat

definition Object_prototype_members :: "string list" where
  "Object_prototype_members =
     [''constructor'', ''__defineGetter__'', ''__defineSetter__'', ''hasOwnProperty'',
      ''__lookupGetter__'', ''__lookupSetter__'', ''isPrototypeOf'',
      ''propertyIsEnumerable'', ''toString'', ''valueOf'', ''__proto__'',
      ''toLocaleString'']"

text \<open>\<open>moduleStats[k]\<close>: the own property, else the inherited member, else
  \<open>undefined\<close>.\<close>

definition get_stat :: "(string \<times> stat_value) list \<Rightarrow> string \<Rightarrow> stat_value option" where
  "get_stat moduleStats k =
     (case map_of moduleStats k of
        Some v \<Rightarrow> Some v
      | None \<Rightarrow> if k \<in> set Object_prototype_members then Some (Inherited k) else None)"

text \<open>Truthiness: of the numbers only \<open>0\<close> is falsy; functions, objects and the
  strings above, none of them empty, are truthy.\<close>

fun truthy :: "stat_value \<Rightarrow> bool" where
  "truthy (Number n) = (n \<noteq> 0)"
| "truthy (Inherited k) = True"
| "truthy (Text v d) = True"

text \<open>\<open>moduleStats[k] || 0\<close>.\<close>

definition stat_or_zero :: "(string \<times> stat_value) list \<Rightarrow> string \<Rightarrow> stat_value" where
  "stat_or_zero moduleStats k =
     (case get_stat moduleStats k of
        None \<Rightarrow> Number 0
      | Some v \<Rightarrow> if truthy v then v else Number 0)"

text \<open>\<open>v + session.duration\<close>: a sum of numbers, or else a concatenation of strings.\<close>

fun js_plus :: "stat_value \<Rightarrow> rat \<Rightarrow> stat_value" where
  "js_plus (Number n) d = Number (n + d)"
| "js_plus (Inherited k) d = Text (Inherited k) d"
| "js_plus (Text v e) d = Text (Text v e) d"

text \<open>\<open>moduleStats[k] = v\<close>: the key \<open>__proto__\<close> names a setter of
  \<open>Object.prototype\<close>, which ignores a number or a string; any other key becomes or stays
  an own property.\<close>

definition set_stat ::
  "string \<Rightarrow> stat_value \<Rightarrow> (string \<times> stat_value) list \<Rightarrow> (string \<times> stat_value) list" where
  "set_stat k v moduleStats =
     (if k = ''__proto__'' then moduleStats else AList.update k v moduleStats)"

text \<open>The body of the \<open>forEach\<close> (lines 70 to 72). \<open>if (session.module_id)\<close> passes
  neither \<open>null\<close> nor the empty string.\<close>

definition addSession ::
  "StudySession \<Rightarrow> (string \<times> stat_value) list \<Rightarrow> (string \<times> stat_value) list" where
  "addSession session moduleStats =
     (case module_id session of
        None \<Rightarrow> moduleStats
      | Some k \<Rightarrow>
          if k = [] then moduleStats
          else set_stat k (js_plus (stat_or_zero moduleStats k) (session_duration session))
                 moduleStats)"

text \<open>The \<open>forEach\<close> itself: reading \<open>module_id\<close> of an \<open>undefined\<close> entry throws.\<close>

fun collectStats ::
  "StudySession option list \<Rightarrow> (string \<times> stat_value) list
   \<Rightarrow> exn + (string \<times> stat_value) list" where
  "collectStats [] moduleStats = Inr moduleStats"
| "collectStats (None # rest) moduleStats = Inl ''TypeError''"
| "collectStats (Some session # rest) moduleStats =
     collectStats rest (addSession session moduleStats)"

text \<open>
  \<open>Object.entries\<close> lists the own keys that are array indices first, in ascending numeric
  order, then the other keys in the order they were written.
\<close>

definition is_digit :: "char \<Rightarrow> bool" where
  "is_digit c \<longleftrightarrow> (48::int) \<le> of_char c \<and> of_char c \<le> (57::int)"

definition decimal_value :: "string \<Rightarrow> int" where
  "decimal_value k = fold (\<lambda>c n. 10 * n + (of_char c - 48)) k 0"

definition is_array_index :: "string \<Rightarrow> bool" where
  "is_array_index k \<longleftrightarrow>
     k \<noteq> [] \<and> list_all is_digit k \<and> (k = ''0'' \<or> hd k \<noteq> CHR ''0'') \<and>
     decimal_value k < 2 ^ 32 - 1"

definition Object_entries :: "(string \<times> 'v) list \<Rightarrow> (string \<times> 'v) list" where
  "Object_entries obj =
     sort_key (\<lambda>p. decimal_value (fst p)) (filter (\<lambda>p. is_array_index (fst p)) obj) @
     filter (\<lambda>p. \<not> is_array_index (fst p)) obj"

text \<open>The number the comparator \<open>b[1] - a[1]\<close> makes of a value; \<open>None\<close> is \<open>NaN\<close>,
  which is what the strings above convert to.\<close>

fun to_number :: "stat_value \<Rightarrow> rat option" where
  "to_number (Number n) = Some n"
| "to_number (Inherited k) = None"
| "to_number (Text v d) = None"

definition sort_rank :: "string \<times> stat_value \<Rightarrow> rat" where
  "sort_rank p = (case to_number (snd p) of None \<Rightarrow> 0 | Some n \<Rightarrow> - n)"

record module_stat =
  stat_moduleId :: string
  stat_duration :: stat_value
  stat_moduleName :: string

text \<open>What the function returns: the entries ranked, or, when a total is no number and
  the comparator yields \<open>NaN\<close>, the entries in an order that the language leaves to the
  engine.\<close>

datatype ranking = Ranked "module_stat list" | Engine_Order "module_stat list"

text \<open>Line 79: the title of the first module with that id, or the placeholder when
  there is none or its title is empty.\<close>

definition moduleName :: "Module list \<Rightarrow> string \<Rightarrow> string" where
  "moduleName ms k =
     (case find (\<lambda>m. mod_id m = k) ms of
        None \<Rightarrow> ''Unknown Module''
      | Some m \<Rightarrow> if module_title m = [] then ''Unknown Module'' else module_title m)"

definition toStat :: "Module list \<Rightarrow> string \<times> stat_value \<Rightarrow> module_stat" where
  "toStat ms p =
     \<lparr>stat_moduleId = fst p, stat_duration = snd p, stat_moduleName = moduleName ms (fst p)\<rparr>"

text \<open>\<open>getMostStudiedModules\<close>, lines 67 to 81. On numbers the comparator
  \<open>b[1] - a[1]\<close> puts the larger total first, and the sort is stable.\<close>

definition getMostStudiedModules :: "store \<Rightarrow> exn + ranking" where
  "getMostStudiedModules st =
     (case collectStats (sessions st) [] of
        Inl e \<Rightarrow> Inl e
      | Inr moduleStats \<Rightarrow>
          (let entries = Object_entries moduleStats
           in if list_all (\<lambda>p. to_number (snd p) \<noteq> None) entries
              then Inr (Ranked (map (toStat (modules st)) (sort_key sort_rank entries)))
              else Inr (Engine_Order (map (toStat (modules st)) entries))))"

text \<open>The number that \<open>moduleStats[k] || 0\<close> stands for, where it is one.\<close>

definition stat_total :: "(string \<times> stat_value) list \<Rightarrow> string \<Rightarrow> rat" where
  "stat_total moduleStats k =
     (case to_number (stat_or_zero moduleStats k) of None \<Rightarrow> 0 | Some n \<Rightarrow> n)"

section \<open>Properties of the focus timer\<close>

lemma timer_inv_initial: "timer_inv initial_timer"
  by (simp add: timer_inv_def initial_timer_def)

lemma tick_not_running: "timer_inv s \<Longrightarrow> status s \<noteq> running \<Longrightarrow> tick s = s"
  by (simp add: timer_inv_def tick_def)

lemma tick_running: "timer_inv s \<Longrightarrow> status s = running \<Longrightarrow> tick s = onTick (duration s) s"
  by (auto simp: timer_inv_def tick_def fire_def split: option.splits)

lemma timer_inv_onTick:
  "timer_inv s \<Longrightarrow> status s = running \<Longrightarrow> timer_inv (onTick (duration s) s)"
  by (auto simp: timer_inv_def onTick_def Let_def clearInterval_def split: option.splits)

lemma timer_inv_tick: "timer_inv s \<Longrightarrow> timer_inv (tick s)"
  by (cases "status s = running") (simp_all add: tick_running tick_not_running timer_inv_onTick)

lemma timer_inv_startTimer: "timer_inv s \<Longrightarrow> timer_inv (startTimer s)"
  by (auto simp: timer_inv_def startTimer_def startTimer_closure_def clearIfSet_def
      clearInterval_def split: option.splits)

lemma timer_inv_pauseTimer: "timer_inv s \<Longrightarrow> timer_inv (pauseTimer s)"
  by (auto simp: timer_inv_def pauseTimer_def clearInterval_def split: option.splits)

lemma timer_inv_stopTimer: "timer_inv s \<Longrightarrow> timer_inv (stopTimer s)"
  by (auto simp: timer_inv_def stopTimer_def clearInterval_def split: option.splits if_splits)

lemma timer_inv_updateDuration: "timer_inv s \<Longrightarrow> timer_inv (updateDuration m s)"
  by (auto simp: timer_inv_def updateDuration_def Let_def split: option.splits)

lemma timer_inv_handler: "timer_inv s \<Longrightarrow> timer_inv (handler e s)"
  by (cases e) (simp_all add: timer_inv_startTimer timer_inv_pauseTimer timer_inv_stopTimer
      timer_inv_updateDuration timer_inv_tick resumeTimer_def resetTimer_def)

lemma timer_inv_syncTimeLeft: "timer_inv new \<Longrightarrow> timer_inv (syncTimeLeft old new)"
  by (auto simp: timer_inv_def syncTimeLeft_def split: option.splits)

lemma timer_inv_step: "timer_inv s \<Longrightarrow> timer_inv (step e s)"
  by (simp add: step_def timer_inv_handler timer_inv_syncTimeLeft)

lemma timer_inv_fold_step: "timer_inv s \<Longrightarrow> timer_inv (fold step es s)"
  by (induction es arbitrary: s) (simp_all add: timer_inv_step)

lemma timer_inv_run: "timer_inv (run es)"
  by (simp add: run_def timer_inv_fold_step timer_inv_initial)

lemma syncTimeLeft_inv: "timer_inv new \<Longrightarrow> syncTimeLeft old new = new"
  by (auto simp: syncTimeLeft_def timer_inv_def)

lemma step_eq_handler: "timer_inv s \<Longrightarrow> step e s = handler e s"
  by (simp add: step_def syncTimeLeft_inv timer_inv_handler)

lemma countdown_to_one:
  "timer_inv s \<Longrightarrow> status s = running \<Longrightarrow> timeLeft s = 1 + int n \<Longrightarrow>
   (tick ^^ n) s = s\<lparr>timeLeft := 1\<rparr>"
proof (induction n arbitrary: s)
  case 0
  then show ?case by simp
next
  case (Suc n)
  let ?s1 = "s\<lparr>timeLeft := 1 + int n\<rparr>"
  have t: "tick s = ?s1"
    using Suc.prems by (simp add: tick_running onTick_def)
  have inv1: "timer_inv ?s1"
    using Suc.prems(1,2) by (auto simp: timer_inv_def split: option.splits)
  have "(tick ^^ Suc n) s = (tick ^^ n) (tick s)"
    by (simp add: funpow_swap1)
  also have "\<dots> = ?s1\<lparr>timeLeft := 1\<rparr>"
    unfolding t using inv1 Suc.prems(2) by (intro Suc.IH) simp_all
  finally show ?case by simp
qed

lemma last_tick:
  "timer_inv s \<Longrightarrow> status s = running \<Longrightarrow> timeLeft s = 1 \<Longrightarrow>
   tick s = s\<lparr>intervals := [], status := completed,
              coins := coins s + earnedCoins_timer (duration s),
              logged := logged s @ [of_int (duration s) / 60],
              toasts := toasts s @ [Session_Completed (earnedCoins_timer (duration s))],
              timeLeft := 0\<rparr>"
  by (auto simp: tick_running onTick_def Let_def timer_inv_def clearInterval_def
      split: option.splits)

lemma startTimer_fresh:
  "timer_inv s \<Longrightarrow> status s = idle \<or> status s = paused \<Longrightarrow>
   startTimer s = s\<lparr>status := running, intervals := [(nextHandle s, duration s)],
                    intervalRef := Some (nextHandle s), nextHandle := Suc (nextHandle s)\<rparr>"
  by (auto simp: startTimer_def startTimer_closure_def timer_inv_def clearIfSet_def
      clearInterval_def split: option.splits)

lemma countdown_completes:
  assumes "timer_inv s" and "status s = idle \<or> status s = paused" and "0 < timeLeft s"
  shows "(tick ^^ nat (timeLeft s)) (startTimer s) =
     s\<lparr>status := completed, intervals := [],
       intervalRef := Some (nextHandle s), nextHandle := Suc (nextHandle s),
       coins := coins s + earnedCoins_timer (duration s),
       logged := logged s @ [of_int (duration s) / 60],
       toasts := toasts s @ [Session_Completed (earnedCoins_timer (duration s))],
       timeLeft := 0\<rparr>"
proof -
  let ?r = "startTimer s"
  obtain n where n: "timeLeft s = 1 + int n"
    using assms(3) by (metis add.commute nat_0_le add_diff_cancel_left' diff_ge_0_iff_ge
        int_one_le_iff_zero_less of_nat_nat zle_diff1_eq le_add_diff_inverse)
  have inv: "timer_inv ?r" using assms(1) by (rule timer_inv_startTimer)
  have r: "status ?r = running" "timeLeft ?r = 1 + int n" "duration ?r = duration s"
    using assms(1,2) n by (simp_all add: startTimer_fresh)
  have "(tick ^^ nat (timeLeft s)) ?r = tick ((tick ^^ n) ?r)"
    using n by (simp add: nat_add_distrib)
  also have "(tick ^^ n) ?r = ?r\<lparr>timeLeft := 1\<rparr>"
    using inv r by (intro countdown_to_one) simp_all
  also have "tick (?r\<lparr>timeLeft := 1\<rparr>) = (?r\<lparr>timeLeft := 1\<rparr>)\<lparr>intervals := [], status := completed,
              coins := coins ?r + earnedCoins_timer (duration ?r),
              logged := logged ?r @ [of_int (duration ?r) / 60],
              toasts := toasts ?r @ [Session_Completed (earnedCoins_timer (duration ?r))],
              timeLeft := 0\<rparr>"
    using inv r by (subst last_tick) (auto simp: timer_inv_def split: option.splits)
  finally show ?thesis
    using assms(1,2) by (simp add: startTimer_fresh)
qed

lemma coins_onTick: "coins s \<le> coins (onTick d s)"
proof -
  have "0 \<le> earnedCoins_timer d" by (simp add: earnedCoins_timer_def max_def)
  then show ?thesis by (simp add: onTick_def Let_def)
qed

lemma coins_fire: "coins s \<le> coins (fire h s)"
  by (simp add: fire_def coins_onTick split: option.splits)

lemma coins_fold_fire: "coins s \<le> coins (fold fire hs s)"
proof (induction hs arbitrary: s)
  case Nil
  then show ?case by simp
next
  case (Cons h hs)
  have "coins s \<le> coins (fire h s)" by (rule coins_fire)
  also have "\<dots> \<le> coins (fold fire hs (fire h s))" by (rule Cons.IH)
  finally show ?case by simp
qed

lemma coins_handler_not_tick: "e \<noteq> Tick \<Longrightarrow> coins (handler e s) = coins s"
  by (cases e) (simp_all add: startTimer_def startTimer_closure_def pauseTimer_def
      resumeTimer_def stopTimer_def resetTimer_def updateDuration_def Let_def)

lemma coins_syncTimeLeft: "coins (syncTimeLeft old new) = coins new"
  by (simp add: syncTimeLeft_def)

lemma coins_step: "coins s \<le> coins (step e s)"
proof (cases "e = Tick")
  case True
  then show ?thesis by (simp add: step_def coins_syncTimeLeft tick_def coins_fold_fire)
next
  case False
  then show ?thesis by (simp add: step_def coins_syncTimeLeft coins_handler_not_tick)
qed

lemma coins_fold_step: "coins s \<le> coins (fold step es s)"
proof (induction es arbitrary: s)
  case Nil
  then show ?case by simp
next
  case (Cons e es)
  have "coins s \<le> coins (step e s)" by (rule coins_step)
  also have "\<dots> \<le> coins (fold step es (step e s))" by (rule Cons.IH)
  finally show ?case by simp
qed

lemma status_onTick_completed: "status s = completed \<Longrightarrow> status (onTick d s) = completed"
  by (simp add: onTick_def Let_def)

lemma status_fold_fire_completed:
  "status s = completed \<Longrightarrow> status (fold fire hs s) = completed"
  by (induction hs arbitrary: s)
     (simp_all add: fire_def status_onTick_completed split: option.splits)

lemma onTick_coins_changed: "coins (onTick d s) \<noteq> coins s \<Longrightarrow> status (onTick d s) = completed"
  by (simp add: onTick_def Let_def split: if_splits)

lemma fire_coins_changed: "coins (fire h s) \<noteq> coins s \<Longrightarrow> status (fire h s) = completed"
  by (auto simp: fire_def onTick_coins_changed split: option.splits)

lemma fold_fire_coins_changed:
  "coins (fold fire hs s) \<noteq> coins s \<Longrightarrow> status (fold fire hs s) = completed"
proof (induction hs arbitrary: s)
  case Nil
  then show ?case by simp
next
  case (Cons h hs)
  show ?case
  proof (cases "coins (fire h s) = coins s")
    case True
    with Cons.prems have "coins (fold fire hs (fire h s)) \<noteq> coins (fire h s)" by simp
    then show ?thesis using Cons.IH by simp
  next
    case False
    then have "status (fire h s) = completed" by (rule fire_coins_changed)
    then show ?thesis by (simp add: status_fold_fire_completed)
  qed
qed

text \<open>
  Claim C10. The coin total never goes down: not in one event, not over any sequence of
  events. An event that changes the total is a tick, and it leaves the status completed.
  \<open>stopTimer\<close> and \<open>resetTimer\<close> leave the total as it is.
\<close>
theorem coins_never_decrease:
  "coins s \<le> coins (step e s) \<and>
   coins s \<le> coins (fold step es s) \<and>
   (coins (step e s) \<noteq> coins s \<longrightarrow> e = Tick \<and> status (step e s) = completed) \<and>
   coins (stopTimer s) = coins s \<and> coins (resetTimer s) = coins s \<and>
   coins (step Stop s) = coins s \<and> coins (step Reset s) = coins s"
proof -
  have "e = Tick \<and> status (step e s) = completed" if ch: "coins (step e s) \<noteq> coins s"
  proof -
    have e: "e = Tick"
      using ch coins_handler_not_tick [of e s] by (auto simp: step_def coins_syncTimeLeft)
    have "coins (fold fire (map fst (intervals s)) s) \<noteq> coins s"
      using ch e by (simp add: step_def coins_syncTimeLeft tick_def)
    then have "status (tick s) = completed"
      unfolding tick_def by (rule fold_fire_coins_changed)
    then show ?thesis using e by (simp add: step_def syncTimeLeft_def)
  qed
  moreover have "coins (stopTimer s) = coins s"
    by (simp add: stopTimer_def)
  ultimately show ?thesis
    using coins_step [of s e] coins_fold_step [of s es]
    by (simp add: step_def coins_syncTimeLeft resetTimer_def)
qed

theorem coins_never_decrease_witness:
  "coins (step Tick ((tick ^^ 1499) (startTimer initial_timer))) \<noteq>
     coins ((tick ^^ 1499) (startTimer initial_timer)) \<and>
   status (step Tick ((tick ^^ 1499) (startTimer initial_timer))) = completed"
proof -
  let ?s = "(tick ^^ 1499) (startTimer initial_timer)"
  have inv: "timer_inv (startTimer initial_timer)"
    by (simp add: timer_inv_startTimer timer_inv_initial)
  have r: "?s = (startTimer initial_timer)\<lparr>timeLeft := 1\<rparr>"
    using inv by (intro countdown_to_one)
      (simp_all add: startTimer_def startTimer_closure_def initial_timer_def)
  have "coins (step Tick ?s) \<noteq> coins ?s"
    unfolding r
    by (simp add: step_def syncTimeLeft_def tick_def fire_def onTick_def Let_def
        startTimer_def startTimer_closure_def initial_timer_def clearIfSet_def
        clearInterval_def earnedCoins_timer_def)
  then show ?thesis
    using coins_never_decrease [of ?s Tick "[]"] by blast
qed

text \<open>
  Claim C2. From an idle or paused timer whose duration and remaining time are both
  \<open>D > 0\<close> seconds, \<open>startTimer\<close> followed by \<open>D\<close> ticks ends with no time left and
  status completed, and \<open>logTimerSession\<close> has been called exactly once more, with \<open>D / 60\<close>.
  No timer is scheduled any more, so further ticks change nothing. The hypothesis
  \<open>timer_inv\<close> holds of every state a mounted hook reaches (\<open>timer_inv_run\<close>).
\<close>
theorem full_countdown_completes:
  assumes "timer_inv s" and "status s = idle \<or> status s = paused"
    and "duration s = D" and "timeLeft s = D" and "0 < D"
  shows "timeLeft ((tick ^^ nat D) (startTimer s)) = 0 \<and>
         status ((tick ^^ nat D) (startTimer s)) = completed \<and>
         logged ((tick ^^ nat D) (startTimer s)) = logged s @ [of_int D / 60] \<and>
         intervals ((tick ^^ nat D) (startTimer s)) = [] \<and>
         (\<forall>n. (tick ^^ n) ((tick ^^ nat D) (startTimer s)) = (tick ^^ nat D) (startTimer s))"
proof -
  let ?f = "(tick ^^ nat D) (startTimer s)"
  have f: "?f = s\<lparr>status := completed, intervals := [],
       intervalRef := Some (nextHandle s), nextHandle := Suc (nextHandle s),
       coins := coins s + earnedCoins_timer (duration s),
       logged := logged s @ [of_int (duration s) / 60],
       toasts := toasts s @ [Session_Completed (earnedCoins_timer (duration s))],
       timeLeft := 0\<rparr>"
    using countdown_completes [OF assms(1,2)] assms(4,5) by simp
  have idle: "tick ?f = ?f"
    unfolding f by (simp add: tick_def)
  have "(tick ^^ n) ?f = ?f" for n
    by (induction n) (simp_all add: idle)
  then show ?thesis
    using assms(3) by (simp add: f)
qed

theorem full_countdown_completes_witness:
  "timeLeft ((tick ^^ nat 1500) (startTimer initial_timer)) = 0 \<and>
   status ((tick ^^ nat 1500) (startTimer initial_timer)) = completed \<and>
   logged ((tick ^^ nat 1500) (startTimer initial_timer)) = [25]"
  using full_countdown_completes [of initial_timer 1500]
  by (simp add: timer_inv_def initial_timer_def)

lemma startTimer_closure_single:
  assumes "timer_inv s"
  shows "length (intervals (startTimer_closure st d s)) \<le> 1 \<and>
         (\<forall>p \<in> set (intervals (startTimer_closure st d s)).
            intervalRef (startTimer_closure st d s) = Some (fst p) \<and> 0 < fst p)"
  using assms
  by (auto simp: timer_inv_def startTimer_closure_def clearIfSet_def clearInterval_def
      split: option.splits if_splits)

lemma startTimer_closure_after_single:
  assumes "length (intervals s) \<le> 1"
    and "\<forall>p \<in> set (intervals s). intervalRef s = Some (fst p) \<and> 0 < fst p"
  shows "length (intervals (startTimer_closure st d s)) \<le> 1"
proof (cases "st = idle \<or> st = paused")
  case False
  then show ?thesis using assms(1) by (simp add: startTimer_closure_def)
next
  case True
  have "clearIfSet (intervalRef s) (intervals s) = []"
  proof (cases "intervals s")
    case Nil
    then show ?thesis by (simp add: clearIfSet_def clearInterval_def split: option.splits)
  next
    case (Cons p ps)
    with assms(1) have ps: "ps = []" by simp
    from Cons assms(2) have "intervalRef s = Some (fst p)" "0 < fst p" by simp_all
    then show ?thesis using Cons ps by (simp add: clearIfSet_def clearInterval_def)
  qed
  then show ?thesis using True by (simp add: startTimer_closure_def)
qed

text \<open>
  Claim C3. In a state the hook can reach, \<open>startTimer\<close> from idle or paused gives status
  running with exactly one scheduled timer, the one \<open>intervalRef\<close> names. Two calls in a
  row leave at most one timer scheduled, whether the second call sees the new status
  (and does nothing) or both calls come from the same render and see the old one (and the
  second clears the timer of the first).
\<close>
theorem startTimer_one_tick_source:
  assumes "timer_inv s"
  shows "(status s = idle \<or> status s = paused \<longrightarrow>
            status (startTimer s) = running \<and>
            intervals (startTimer s) = [(nextHandle s, duration s)] \<and>
            intervalRef (startTimer s) = Some (nextHandle s)) \<and>
         length (intervals (startTimer (startTimer s))) \<le> 1 \<and>
         length (intervals (startTimer_closure st2 d2 (startTimer_closure st1 d1 s))) \<le> 1"
proof -
  have one: "status s = idle \<or> status s = paused \<longrightarrow>
            status (startTimer s) = running \<and>
            intervals (startTimer s) = [(nextHandle s, duration s)] \<and>
            intervalRef (startTimer s) = Some (nextHandle s)"
    using assms by (simp add: startTimer_fresh)
  have two: "length (intervals (startTimer_closure b e (startTimer_closure a d s))) \<le> 1"
    for a b d e
    using startTimer_closure_single [OF assms, of a d]
      startTimer_closure_after_single [of "startTimer_closure a d s" b e]
    by blast
  show ?thesis
    using one two [of st2 d2 st1 d1] two [of "status (startTimer s)" "duration (startTimer s)"
        "status s" "duration s"]
    by (simp add: startTimer_def)
qed

theorem startTimer_one_tick_source_witness:
  "status (startTimer initial_timer) = running \<and>
   intervals (startTimer initial_timer) = [(1, 1500)] \<and>
   intervalRef (startTimer initial_timer) = Some 1 \<and>
   length (intervals (startTimer (startTimer initial_timer))) \<le> 1 \<and>
   length (intervals (startTimer_closure idle 1500 (startTimer_closure idle 1500 initial_timer)))
     \<le> 1"
  using startTimer_one_tick_source [of initial_timer idle 1500 idle 1500]
  by (simp add: timer_inv_def initial_timer_def)

text \<open>
  Claim C6. \<open>stopTimer\<close> from any state gives status idle and the full duration as
  remaining time. A second \<open>stopTimer\<close> changes nothing but the list of notifications,
  which gets one more entry. \<open>resetTimer\<close> is \<open>stopTimer\<close>, and the effect that follows
  the handler changes nothing.
\<close>
theorem stopTimer_resets_idempotent:
  "status (stopTimer s) = idle \<and>
   timeLeft (stopTimer s) = duration s \<and>
   duration (stopTimer s) = duration s \<and>
   stopTimer (stopTimer s) = (stopTimer s)\<lparr>toasts := toasts (stopTimer s) @ [Timer_Stopped]\<rparr> \<and>
   resetTimer s = stopTimer s \<and>
   step Stop s = stopTimer s \<and> step Reset s = stopTimer s"
  by (cases "intervalRef s")
     (simp_all add: stopTimer_def resetTimer_def step_def syncTimeLeft_def clearInterval_def)

theorem stopTimer_resets_idempotent_witness:
  "status (stopTimer (startTimer initial_timer)) = idle \<and>
   timeLeft (stopTimer (startTimer initial_timer)) = 1500 \<and>
   intervals (stopTimer (startTimer initial_timer)) = [] \<and>
   stopTimer (stopTimer (startTimer initial_timer)) =
     (stopTimer (startTimer initial_timer))\<lparr>toasts := [Timer_Stopped, Timer_Stopped]\<rparr>"
  using stopTimer_resets_idempotent [of "startTimer initial_timer"]
  by (simp add: startTimer_def startTimer_closure_def initial_timer_def stopTimer_def
      clearIfSet_def clearInterval_def)

text \<open>
  Claim C7. \<open>updateDuration m\<close> leaves the whole state as it is unless the status is idle;
  when idle it sets both the duration and the remaining time to \<open>m * 60\<close> seconds.
\<close>
theorem updateDuration_only_when_idle:
  "(status s \<noteq> idle \<longrightarrow> updateDuration m s = s \<and> step (UpdateDuration m) s = s) \<and>
   (status s = idle \<longrightarrow>
      duration (updateDuration m s) = m * 60 \<and> timeLeft (updateDuration m s) = m * 60 \<and>
      status (updateDuration m s) = idle \<and>
      step (UpdateDuration m) s = updateDuration m s)"
  by (simp add: updateDuration_def step_def syncTimeLeft_def Let_def)

theorem updateDuration_only_when_idle_witness:
  "status (startTimer initial_timer) \<noteq> idle \<and>
   updateDuration 5 (startTimer initial_timer) = startTimer initial_timer \<and>
   status initial_timer = idle \<and>
   duration (updateDuration 5 initial_timer) = 300 \<and>
   timeLeft (updateDuration 5 initial_timer) = 300"
  using updateDuration_only_when_idle [of "startTimer initial_timer" 5]
    updateDuration_only_when_idle [of initial_timer 5]
  by (simp add: startTimer_def startTimer_closure_def initial_timer_def)

text \<open>
  Claim C9. When the timer is started with no time left, the first tick completes it and
  sets the remaining time to 0, but the coins, the calls of \<open>logTimerSession\<close> and the
  notifications stay as they were. The path \<open>updateDuration 0\<close>, \<open>startTimer\<close>, one
  tick, from a freshly mounted hook, is such a run.
\<close>
theorem zero_time_completion_is_silent:
  assumes "timer_inv s" and "status s = idle \<or> status s = paused" and "timeLeft s \<le> 0"
  shows "status (tick (startTimer s)) = completed \<and>
         timeLeft (tick (startTimer s)) = 0 \<and>
         coins (tick (startTimer s)) = coins s \<and>
         logged (tick (startTimer s)) = logged s \<and>
         toasts (tick (startTimer s)) = toasts s \<and>
         intervals (tick (startTimer s)) = []"
proof -
  have inv: "timer_inv (startTimer s)" using assms(1) by (rule timer_inv_startTimer)
  have run: "status (startTimer s) = running"
    using assms(1,2) by (simp add: startTimer_fresh)
  have "tick (startTimer s) = onTick (duration (startTimer s)) (startTimer s)"
    using inv run by (rule tick_running)
  then show ?thesis
    using assms by (simp add: startTimer_fresh onTick_def Let_def clearInterval_def)
qed

theorem zero_time_completion_is_silent_witness:
  "run [UpdateDuration 0, Start, Tick] = tick (startTimer (updateDuration 0 initial_timer)) \<and>
   status (run [UpdateDuration 0, Start, Tick]) = completed \<and>
   timeLeft (run [UpdateDuration 0, Start, Tick]) = 0 \<and>
   coins (run [UpdateDuration 0, Start, Tick]) = 0 \<and>
   logged (run [UpdateDuration 0, Start, Tick]) = [] \<and>
   toasts (run [UpdateDuration 0, Start, Tick]) = []"
proof -
  let ?s = "updateDuration 0 initial_timer"
  have inv: "timer_inv ?s" by (simp add: timer_inv_updateDuration timer_inv_initial)
  have r: "run [UpdateDuration 0, Start, Tick] = tick (startTimer ?s)"
    by (simp add: run_def step_eq_handler timer_inv_initial timer_inv_updateDuration
        timer_inv_startTimer)
  have s: "status ?s = idle" "timeLeft ?s = 0" "coins ?s = 0" "logged ?s = []" "toasts ?s = []"
    by (simp_all add: updateDuration_def initial_timer_def)
  show ?thesis
    using zero_time_completion_is_silent [OF inv] s by (simp add: r)
qed

lemma earnedCoins_of_int: "earnedCoins (of_int n) = max 1 (n div 10)"
  using floor_divide_of_int_eq [of n 10, where ?'a = rat] by (simp add: earnedCoins_def)

lemma createStudySession_reward:
  "auth_getUser sb = Resolved (Some user) \<Longrightarrow>
   insert_study_session sb (newSession user mid d dt nts) = Resolved \<lparr>data = Some (r # rs), error = None\<rparr> \<Longrightarrow>
   new_earned_coins (newSession user mid d dt nts) = max 1 \<lfloor>d / 10\<rfloor> \<and>
   createStudySession sb mid d dt nts st =
     (Inr (Row r), st\<lparr>sessions := Some r # sessions st,
        notifications := notifications st @ [Session_Logged (max 1 \<lfloor>d / 10\<rfloor>)]\<rparr>)"
  by (simp add: createStudySession_def createStudySession_try_def newSession_def earnedCoins_def)

text \<open>
  Claim C1. The timer of 25 minutes, the default, is started and runs down. The hook adds
  150 coins, computed from the 1500 seconds, and calls \<open>logTimerSession\<close> with 25; the
  row \<open>createStudySession\<close> then sends for these 25 minutes carries 2 earned coins.
\<close>

theorem timer_reward_counts_seconds:
  "duration initial_timer = 25 * 60 \<and>
   coins ((tick ^^ 1500) (startTimer initial_timer)) = 150 \<and>
   logged ((tick ^^ 1500) (startTimer initial_timer)) = [25] \<and>
   new_earned_coins (newSession user mid 25 dt nts) = 2"
proof -
  have "(tick ^^ nat (timeLeft initial_timer)) (startTimer initial_timer) =
     initial_timer\<lparr>status := completed, intervals := [],
       intervalRef := Some (nextHandle initial_timer),
       nextHandle := Suc (nextHandle initial_timer),
       coins := coins initial_timer + earnedCoins_timer (duration initial_timer),
       logged := logged initial_timer @ [of_int (duration initial_timer) / 60],
       toasts := toasts initial_timer @
         [Session_Completed (earnedCoins_timer (duration initial_timer))],
       timeLeft := 0\<rparr>"
    by (rule countdown_completes) (simp_all add: timer_inv_initial, simp_all add: initial_timer_def)
  moreover have "earnedCoins 25 = 2"
    using earnedCoins_of_int [of 25] by simp
  ultimately show ?thesis
    by (simp add: initial_timer_def earnedCoins_timer_def newSession_def)
qed

section \<open>Properties of the study sessions store\<close>

lemma collectStats_defined:
  "collectStats (map Some xs) acc = Inr (fold addSession xs acc)"
  by (induction xs arbitrary: acc) simp_all

lemma proto_is_member: "''__proto__'' \<in> set Object_prototype_members"
  by (simp add: Object_prototype_members_def)

lemma set_update_cases:
  "p \<in> set (AList.update k v al) \<Longrightarrow> p = (k, v) \<or> p \<in> set al"
  by (induction al) (auto split: if_splits)

lemma stat_or_zero_numeric:
  assumes "\<forall>p \<in> set obj. \<exists>n. snd p = Number n" and "k \<notin> set Object_prototype_members"
  shows "\<exists>n. stat_or_zero obj k = Number n"
proof (cases "map_of obj k")
  case None
  then show ?thesis using assms(2) by (simp add: stat_or_zero_def get_stat_def)
next
  case (Some v)
  then have "(k, v) \<in> set obj" by (rule map_of_SomeD)
  with assms(1) obtain n where "v = Number n" by fastforce
  with Some show ?thesis by (simp add: stat_or_zero_def get_stat_def)
qed

lemma numeric_addSession:
  assumes "\<forall>p \<in> set obj. \<exists>n. snd p = Number n"
    and "\<forall>j. module_id x = Some j \<longrightarrow> j \<notin> set Object_prototype_members"
  shows "\<forall>p \<in> set (addSession x obj). \<exists>n. snd p = Number n"
proof (cases "module_id x")
  case None
  then show ?thesis using assms(1) by (simp add: addSession_def)
next
  case (Some j)
  with assms(2) have j: "j \<notin> set Object_prototype_members" by simp
  then have np: "j \<noteq> ''__proto__''" using proto_is_member by auto
  obtain n where n: "stat_or_zero obj j = Number n"
    using stat_or_zero_numeric [OF assms(1) j] by auto
  show ?thesis
  proof (cases "j = []")
    case True
    then show ?thesis using Some assms(1) by (simp add: addSession_def)
  next
    case False
    then have "addSession x obj = AList.update j (Number (n + session_duration x)) obj"
      using Some np n by (simp add: addSession_def set_stat_def)
    then show ?thesis
      using assms(1) set_update_cases [of _ j "Number (n + session_duration x)" obj]
      by fastforce
  qed
qed

lemma stat_total_addSession:
  assumes "\<forall>p \<in> set obj. \<exists>n. snd p = Number n"
    and "\<forall>j. module_id x = Some j \<longrightarrow> j \<notin> set Object_prototype_members"
    and "k \<noteq> []"
  shows "stat_total (addSession x obj) k =
     stat_total obj k + (if module_id x = Some k then session_duration x else 0)"
proof (cases "module_id x")
  case None
  then show ?thesis by (simp add: addSession_def)
next
  case (Some j)
  with assms(2) have j: "j \<notin> set Object_prototype_members" by simp
  then have np: "j \<noteq> ''__proto__''" using proto_is_member by auto
  obtain n where n: "stat_or_zero obj j = Number n"
    using stat_or_zero_numeric [OF assms(1) j] by auto
  show ?thesis
  proof (cases "j = []")
    case True
    then show ?thesis using Some assms(3) by (auto simp: addSession_def)
  next
    case False
    then have upd: "addSession x obj = AList.update j (Number (n + session_duration x)) obj"
      using Some np n by (simp add: addSession_def set_stat_def)
    show ?thesis
    proof (cases "k = j")
      case True
      have "stat_total (addSession x obj) j = n + session_duration x"
        unfolding upd by (simp add: stat_total_def stat_or_zero_def get_stat_def update_conv')
      moreover have "stat_total obj j = n"
        using n by (simp add: stat_total_def)
      ultimately show ?thesis using True Some by simp
    next
      case False
      then have "stat_total (addSession x obj) k = stat_total obj k"
        unfolding upd by (simp add: stat_total_def stat_or_zero_def get_stat_def update_conv')
      then show ?thesis using False Some by simp
    qed
  qed
qed

lemma distinct_addSession:
  "distinct (map fst obj) \<Longrightarrow> distinct (map fst (addSession x obj))"
  by (simp add: addSession_def set_stat_def distinct_update split: option.splits)

lemma keys_addSession:
  assumes "\<forall>j. module_id x = Some j \<longrightarrow> j \<notin> set Object_prototype_members"
  shows "fst ` set (addSession x obj) =
     fst ` set obj \<union> {k. k \<noteq> [] \<and> module_id x = Some k}"
proof (cases "module_id x")
  case None
  then show ?thesis by (simp add: addSession_def)
next
  case (Some j)
  with assms have "j \<noteq> ''__proto__''" using proto_is_member by auto
  then show ?thesis
    using Some by (auto simp: addSession_def set_stat_def dom_update)
qed

lemma fold_addSession_props:
  assumes "\<forall>s \<in> set xs. \<forall>j. module_id s = Some j \<longrightarrow> j \<notin> set Object_prototype_members"
    and "\<forall>p \<in> set obj. \<exists>n. snd p = Number n"
    and "distinct (map fst obj)"
  shows "(\<forall>p \<in> set (fold addSession xs obj). \<exists>n. snd p = Number n) \<and>
     distinct (map fst (fold addSession xs obj)) \<and>
     fst ` set (fold addSession xs obj) =
       fst ` set obj \<union> {k. k \<noteq> [] \<and> (\<exists>s \<in> set xs. module_id s = Some k)} \<and>
     (\<forall>k. k \<noteq> [] \<longrightarrow> stat_total (fold addSession xs obj) k =
        stat_total obj k +
        sum_list (map session_duration (filter (\<lambda>s. module_id s = Some k) xs)))"
  using assms
proof (induction xs arbitrary: obj)
  case Nil
  then show ?case by simp
next
  case (Cons x xs)
  have x: "\<forall>j. module_id x = Some j \<longrightarrow> j \<notin> set Object_prototype_members"
    using Cons.prems(1) by simp
  have rest: "\<forall>s \<in> set xs. \<forall>j. module_id s = Some j \<longrightarrow> j \<notin> set Object_prototype_members"
    using Cons.prems(1) by simp
  have num: "\<forall>p \<in> set (addSession x obj). \<exists>n. snd p = Number n"
    using Cons.prems(2) x by (rule numeric_addSession)
  have dis: "distinct (map fst (addSession x obj))"
    using Cons.prems(3) by (rule distinct_addSession)
  note IH = Cons.IH [OF rest num dis]
  have keys: "fst ` set (addSession x obj) =
     fst ` set obj \<union> {k. k \<noteq> [] \<and> module_id x = Some k}"
    using x by (rule keys_addSession)
  have tot: "stat_total (addSession x obj) k =
     stat_total obj k + (if module_id x = Some k then session_duration x else 0)"
    if "k \<noteq> []" for k
    using Cons.prems(2) x that by (rule stat_total_addSession)
  have c1: "\<forall>p \<in> set (fold addSession (x # xs) obj). \<exists>n. snd p = Number n"
    using IH by simp
  have c2: "distinct (map fst (fold addSession (x # xs) obj))"
    using IH by simp
  have c3: "fst ` set (fold addSession (x # xs) obj) =
       fst ` set obj \<union> {k. k \<noteq> [] \<and> (\<exists>s \<in> set (x # xs). module_id s = Some k)}"
    using IH keys by auto
  have c4: "\<forall>k. k \<noteq> [] \<longrightarrow> stat_total (fold addSession (x # xs) obj) k =
        stat_total obj k +
        sum_list (map session_duration (filter (\<lambda>s. module_id s = Some k) (x # xs)))"
    using IH tot by simp
  show ?case using c1 c2 c3 c4 by blast
qed

lemma mset_Object_entries: "mset (Object_entries obj) = mset obj"
  by (simp add: Object_entries_def)

lemma stat_total_entry:
  "distinct (map fst obj) \<Longrightarrow> (k, Number n) \<in> set obj \<Longrightarrow> stat_total obj k = n"
  by (simp add: stat_total_def stat_or_zero_def get_stat_def)

lemma sorted_desc:
  assumes "\<forall>p \<in> set ys. \<exists>n. snd p = Number n"
  shows "\<exists>ns. map snd (sort_key sort_rank ys) = map Number ns \<and> sorted (rev ns)"
proof -
  let ?zs = "sort_key sort_rank ys"
  let ?ns = "map (\<lambda>p. - sort_rank p) ?zs"
  have "sorted (map sort_rank ?zs)" by (rule sorted_sort_key)
  then have "sorted_wrt (\<lambda>a b. - sort_rank b \<le> - sort_rank a) ?zs"
    by (simp add: sorted_wrt_map)
  then have "sorted_wrt (\<lambda>a b. b \<le> a) ?ns"
    by (simp add: sorted_wrt_map)
  then have s: "sorted (rev ?ns)"
    by (simp add: sorted_wrt_rev)
  have "snd p = Number (- sort_rank p)" if "p \<in> set ?zs" for p
  proof -
    from that assms obtain n where "snd p = Number n" by auto
    then show ?thesis by (simp add: sort_rank_def)
  qed
  then have "map snd ?zs = map Number ?ns" by simp
  with s show ?thesis by blast
qed

lemma getMostStudiedModules_ranked:
  assumes "sessions st = map Some xs"
    and "\<forall>s \<in> set xs. \<forall>k. module_id s = Some k \<longrightarrow> k \<notin> set Object_prototype_members"
  shows "getMostStudiedModules st =
     Inr (Ranked (map (toStat (modules st))
       (sort_key sort_rank (Object_entries (fold addSession xs [])))))"
proof -
  have "\<forall>p \<in> set (fold addSession xs []). \<exists>n. snd p = Number n"
    using fold_addSession_props [OF assms(2), of "[]"] by simp
  moreover have "set (Object_entries (fold addSession xs [])) = set (fold addSession xs [])"
    using mset_Object_entries by (rule mset_eq_setD)
  ultimately have "list_all (\<lambda>p. to_number (snd p) \<noteq> None)
      (Object_entries (fold addSession xs []))"
    by (fastforce simp: list_all_iff)
  then show ?thesis
    using assms(1) by (simp add: getMostStudiedModules_def collectStats_defined)
qed

text \<open>
  Claim C8 as stated fails for a module id that names a member of \<open>Object.prototype\<close>.
  Sessions of 30 minutes under the id \<open>__proto__\<close> and 10 under \<open>topicB\<close> give the one
  group \<open>topicB\<close>: the write under \<open>__proto__\<close> is ignored and that group never exists.
  A session of 30 minutes under \<open>constructor\<close> gives a group whose total is no sum but a
  string, the inherited function followed by 30.
\<close>
theorem getMostStudiedModules_inherited_counterexample:
  "getMostStudiedModules
     \<lparr>sessions =
        [Some \<lparr>session_id = ''s1'', user_id = ''u1'', module_id = Some ''__proto__'',
               session_duration = 30, date = ''2024-05-01'', session_notes = None,
               created_at = None, earned_coins = Some 3\<rparr>,
         Some \<lparr>session_id = ''s2'', user_id = ''u1'', module_id = Some ''topicB'',
               session_duration = 10, date = ''2024-05-02'', session_notes = None,
               created_at = None, earned_coins = Some 1\<rparr>],
      modules = [], isLoading = False, notifications = [], console = []\<rparr> =
   Inr (Ranked [\<lparr>stat_moduleId = ''topicB'', stat_duration = Number 10,
                 stat_moduleName = ''Unknown Module''\<rparr>]) \<and>
   getMostStudiedModules
     \<lparr>sessions =
        [Some \<lparr>session_id = ''s1'', user_id = ''u1'', module_id = Some ''constructor'',
               session_duration = 30, date = ''2024-05-01'', session_notes = None,
               created_at = None, earned_coins = Some 3\<rparr>],
      modules = [], isLoading = False, notifications = [], console = []\<rparr> =
   Inr (Engine_Order [\<lparr>stat_moduleId = ''constructor'',
                       stat_duration = Text (Inherited ''constructor'') 30,
                       stat_moduleName = ''Unknown Module''\<rparr>])"
  by (simp add: getMostStudiedModules_def addSession_def stat_or_zero_def get_stat_def
      set_stat_def Object_prototype_members_def Object_entries_def is_array_index_def
      is_digit_def moduleName_def toStat_def sort_rank_def)

text \<open>
  Claim C8, amended. Over a cache of session rows none of whose module ids names a member
  of \<open>Object.prototype\<close>, \<open>getMostStudiedModules\<close> returns one entry for each module id
  that some session carries, a session with no id (\<open>null\<close>, or the empty string) counting
  for none. An entry's duration is the sum of the durations of the sessions with its id,
  the entries come in descending order of that sum, and an entry's name is the title of
  the first module with its id, or \<open>Unknown Module\<close> when there is none (or its title is
  empty). The cache with 30 and 5 minutes for \<open>topicA\<close>, 10 for \<open>topicB\<close> and a session
  with no module yields \<open>topicA\<close> with 35, then \<open>topicB\<close> with 10.
\<close>
theorem getMostStudiedModules_ranking:
  assumes "sessions st = map Some xs"
    and "\<forall>s \<in> set xs. \<forall>k. module_id s = Some k \<longrightarrow> k \<notin> set Object_prototype_members"
  shows "\<exists>r ns. getMostStudiedModules st = Inr (Ranked r) \<and>
     distinct (map stat_moduleId r) \<and>
     set (map stat_moduleId r) = {k. k \<noteq> [] \<and> (\<exists>s \<in> set xs. module_id s = Some k)} \<and>
     (\<forall>e \<in> set r. stat_duration e =
        Number (sum_list (map session_duration
          (filter (\<lambda>s. module_id s = Some (stat_moduleId e)) xs)))) \<and>
     map stat_duration r = map Number ns \<and> sorted (rev ns) \<and>
     (\<forall>e \<in> set r. stat_moduleName e =
        (case find (\<lambda>m. mod_id m = stat_moduleId e) (modules st) of
           None \<Rightarrow> ''Unknown Module''
         | Some m \<Rightarrow> if module_title m = [] then ''Unknown Module'' else module_title m))"
proof -
  let ?al = "fold addSession xs []"
  let ?ys = "sort_key sort_rank (Object_entries ?al)"
  let ?r = "map (toStat (modules st)) ?ys"
  have r: "getMostStudiedModules st = Inr (Ranked ?r)"
    using assms by (rule getMostStudiedModules_ranked)
  have props: "(\<forall>p \<in> set ?al. \<exists>n. snd p = Number n) \<and>
     distinct (map fst ?al) \<and>
     fst ` set ?al = {k. k \<noteq> [] \<and> (\<exists>s \<in> set xs. module_id s = Some k)} \<and>
     (\<forall>k. k \<noteq> [] \<longrightarrow> stat_total ?al k =
        stat_total [] k +
        sum_list (map session_duration (filter (\<lambda>s. module_id s = Some k) xs)))"
    using fold_addSession_props [OF assms(2), of "[]"] by simp
  have num: "\<forall>p \<in> set ?al. \<exists>n. snd p = Number n" using props by blast
  have d_al: "distinct (map fst ?al)" using props by blast
  have keys: "fst ` set ?al = {k. k \<noteq> [] \<and> (\<exists>s \<in> set xs. module_id s = Some k)}"
    using props by blast
  have m: "mset ?ys = mset ?al"
    by (simp add: mset_Object_entries)
  have set_ys: "set ?ys = set ?al"
    using m by (rule mset_eq_setD)
  have "mset (map fst ?ys) = mset (map fst ?al)"
    using m by (metis mset_map)
  then have d: "distinct (map fst ?ys)"
    using d_al by (metis mset_eq_imp_distinct_iff)
  have total: "snd p = Number (sum_list (map session_duration
          (filter (\<lambda>s. module_id s = Some (fst p)) xs)))" if p: "p \<in> set ?al" for p
  proof -
    obtain n where n: "snd p = Number n" using num p by auto
    have ne: "fst p \<noteq> []" using p keys by auto
    have k: "fst p \<notin> set Object_prototype_members"
      using p keys assms(2) by auto
    have "(fst p, Number n) \<in> set ?al" using p n by (metis prod.collapse)
    then have "stat_total ?al (fst p) = n"
      using d_al by (intro stat_total_entry)
    moreover have "stat_total ?al (fst p) = stat_total [] (fst p) +
        sum_list (map session_duration (filter (\<lambda>s. module_id s = Some (fst p)) xs))"
      using props ne by blast
    moreover have "stat_total [] (fst p) = 0"
      using k by (simp add: stat_total_def stat_or_zero_def get_stat_def)
    ultimately show ?thesis using n by simp
  qed
  have num_oe: "\<forall>p \<in> set (Object_entries ?al). \<exists>n. snd p = Number n"
    using num mset_eq_setD [OF mset_Object_entries [of ?al]] by simp
  obtain ns where ns: "map snd ?ys = map Number ns" "sorted (rev ns)"
    using sorted_desc [OF num_oe] by blast
  have c1: "distinct (map stat_moduleId ?r)"
    using d by (simp add: comp_def toStat_def)
  have c2: "set (map stat_moduleId ?r) =
      {k. k \<noteq> [] \<and> (\<exists>s \<in> set xs. module_id s = Some k)}"
    using keys set_ys by (simp add: comp_def image_image toStat_def)
  have c3: "\<forall>e \<in> set ?r. stat_duration e =
        Number (sum_list (map session_duration
          (filter (\<lambda>s. module_id s = Some (stat_moduleId e)) xs)))"
    using total set_ys by (auto simp: toStat_def)
  have c4: "map stat_duration ?r = map Number ns"
    using ns(1) by (simp add: comp_def toStat_def)
  have c5: "\<forall>e \<in> set ?r. stat_moduleName e =
        (case find (\<lambda>m. mod_id m = stat_moduleId e) (modules st) of
           None \<Rightarrow> ''Unknown Module''
         | Some m \<Rightarrow> if module_title m = [] then ''Unknown Module'' else module_title m)"
    by (auto simp: moduleName_def toStat_def)
  show ?thesis
    using r c1 c2 c3 c4 ns(2) c5 by blast
qed

theorem getMostStudiedModules_ranking_witness:
  "getMostStudiedModules
     \<lparr>sessions =
        [Some \<lparr>session_id = ''s1'', user_id = ''u1'', module_id = Some ''topicA'',
               session_duration = 30, date = ''2024-05-01'', session_notes = None,
               created_at = None, earned_coins = Some 3\<rparr>,
         Some \<lparr>session_id = ''s2'', user_id = ''u1'', module_id = Some ''topicB'',
               session_duration = 10, date = ''2024-05-02'', session_notes = None,
               created_at = None, earned_coins = Some 1\<rparr>,
         Some \<lparr>session_id = ''s3'', user_id = ''u1'', module_id = Some ''topicA'',
               session_duration = 5, date = ''2024-05-03'', session_notes = None,
               created_at = None, earned_coins = Some 1\<rparr>,
         Some \<lparr>session_id = ''s4'', user_id = ''u1'', module_id = None,
               session_duration = 50, date = ''2024-05-03'', session_notes = None,
               created_at = None, earned_coins = Some 5\<rparr>],
      modules = [\<lparr>mod_id = ''topicA'', module_code = ''MA101'', module_title = ''Algebra''\<rparr>],
      isLoading = False, notifications = [], console = []\<rparr> =
   Inr (Ranked
     [\<lparr>stat_moduleId = ''topicA'', stat_duration = Number 35, stat_moduleName = ''Algebra''\<rparr>,
      \<lparr>stat_moduleId = ''topicB'', stat_duration = Number 10,
       stat_moduleName = ''Unknown Module''\<rparr>])"
  using getMostStudiedModules_ranking
    [of "\<lparr>sessions =
        [Some \<lparr>session_id = ''s1'', user_id = ''u1'', module_id = Some ''topicA'',
               session_duration = 30, date = ''2024-05-01'', session_notes = None,
               created_at = None, earned_coins = Some 3\<rparr>,
         Some \<lparr>session_id = ''s2'', user_id = ''u1'', module_id = Some ''topicB'',
               session_duration = 10, date = ''2024-05-02'', session_notes = None,
               created_at = None, earned_coins = Some 1\<rparr>,
         Some \<lparr>session_id = ''s3'', user_id = ''u1'', module_id = Some ''topicA'',
               session_duration = 5, date = ''2024-05-03'', session_notes = None,
               created_at = None, earned_coins = Some 1\<rparr>,
         Some \<lparr>session_id = ''s4'', user_id = ''u1'', module_id = None,
               session_duration = 50, date = ''2024-05-03'', session_notes = None,
               created_at = None, earned_coins = Some 5\<rparr>],
      modules = [\<lparr>mod_id = ''topicA'', module_code = ''MA101'', module_title = ''Algebra''\<rparr>],
      isLoading = False, notifications = [], console = []\<rparr>"
     "[\<lparr>session_id = ''s1'', user_id = ''u1'', module_id = Some ''topicA'',
               session_duration = 30, date = ''2024-05-01'', session_notes = None,
               created_at = None, earned_coins = Some 3\<rparr>,
         \<lparr>session_id = ''s2'', user_id = ''u1'', module_id = Some ''topicB'',
               session_duration = 10, date = ''2024-05-02'', session_notes = None,
               created_at = None, earned_coins = Some 1\<rparr>,
         \<lparr>session_id = ''s3'', user_id = ''u1'', module_id = Some ''topicA'',
               session_duration = 5, date = ''2024-05-03'', session_notes = None,
               created_at = None, earned_coins = Some 1\<rparr>,
         \<lparr>session_id = ''s4'', user_id = ''u1'', module_id = None,
               session_duration = 50, date = ''2024-05-03'', session_notes = None,
               created_at = None, earned_coins = Some 5\<rparr>]"]
  by (simp add: getMostStudiedModules_def addSession_def stat_or_zero_def get_stat_def
      set_stat_def Object_prototype_members_def Object_entries_def is_array_index_def
      is_digit_def moduleName_def toStat_def sort_rank_def)

lemma createStudySession_catches:
  "fst (createStudySession_try sb mid d dt nts st) = Inl e \<Longrightarrow>
   snd (createStudySession_try sb mid d dt nts st) = st \<and>
   createStudySession sb mid d dt nts st =
     (Inr Null, st\<lparr>console := console st @ [e],
                    notifications := notifications st @ [Create_Failed]\<rparr>)"
  by (auto simp: createStudySession_def createStudySession_try_def Let_def
      split: promise.splits option.splits prod.splits sum.splits list.splits)

lemma createStudySession_returns:
  "\<exists>v st'. createStudySession sb mid d dt nts st = (Inr v, st')"
  by (auto simp: createStudySession_def split: prod.splits sum.splits)

text \<open>
  Claim C4. For all arguments and every state, \<open>createStudySession\<close> returns and never
  throws. When there is no user, when a remote call rejects, or when the insert answers
  with an error, it returns \<open>null\<close>, leaves the caches as they were and reports the
  failure by one notification.
\<close>
theorem createStudySession_failure_is_null:
  "(\<exists>v. fst (createStudySession sb mid d dt nts st) = Inr v) \<and>
   ((auth_getUser sb = Resolved None \<or> auth_getUser sb = Rejected e \<or>
     (auth_getUser sb = Resolved (Some user) \<and>
        (insert_study_session sb (newSession user mid d dt nts) = Rejected e \<or>
         (insert_study_session sb (newSession user mid d dt nts) = Resolved resp \<and>
          error resp = Some e)))) \<longrightarrow>
    fst (createStudySession sb mid d dt nts st) = Inr Null \<and>
    sessions (snd (createStudySession sb mid d dt nts st)) = sessions st \<and>
    modules (snd (createStudySession sb mid d dt nts st)) = modules st \<and>
    notifications (snd (createStudySession sb mid d dt nts st)) =
      notifications st @ [Create_Failed])"
proof -
  have ret: "\<exists>v. fst (createStudySession sb mid d dt nts st) = Inr v"
    using createStudySession_returns [of sb mid d dt nts st] by auto
  have fail: "fst (createStudySession sb mid d dt nts st) = Inr Null \<and>
    sessions (snd (createStudySession sb mid d dt nts st)) = sessions st \<and>
    modules (snd (createStudySession sb mid d dt nts st)) = modules st \<and>
    notifications (snd (createStudySession sb mid d dt nts st)) =
      notifications st @ [Create_Failed]"
    if "auth_getUser sb = Resolved None \<or> auth_getUser sb = Rejected e \<or>
     (auth_getUser sb = Resolved (Some user) \<and>
        (insert_study_session sb (newSession user mid d dt nts) = Rejected e \<or>
         (insert_study_session sb (newSession user mid d dt nts) = Resolved resp \<and>
          error resp = Some e)))"
  proof -
    from that have "\<exists>x. fst (createStudySession_try sb mid d dt nts st) = Inl x"
      by (auto simp: createStudySession_try_def)
    then obtain x where "fst (createStudySession_try sb mid d dt nts st) = Inl x" ..
    then show ?thesis
      using createStudySession_catches [of sb mid d dt nts st x] by simp
  qed
  show ?thesis using ret fail by blast
qed

theorem createStudySession_failure_is_null_witness:
  "createStudySession
     \<lparr>auth_getUser = Resolved None,
      select_modules = Rejected ''offline'',
      select_study_sessions = (\<lambda>u. Rejected ''offline''),
      insert_study_session = (\<lambda>row. Rejected ''offline'')\<rparr>
     None 25 ''2024-05-01'' None initial_store =
     (Inr Null, initial_store\<lparr>console := [''No active session''],
                               notifications := [Create_Failed]\<rparr>) \<and>
   fst (createStudySession
     \<lparr>auth_getUser = Resolved (Some \<lparr>uid = ''u1''\<rparr>),
      select_modules = Rejected ''offline'',
      select_study_sessions = (\<lambda>u. Rejected ''offline''),
      insert_study_session =
        (\<lambda>row. Resolved \<lparr>data = None, error = Some ''insert refused''\<rparr>)\<rparr>
     None 25 ''2024-05-01'' None initial_store) = Inr Null \<and>
   sessions (snd (createStudySession
     \<lparr>auth_getUser = Resolved (Some \<lparr>uid = ''u1''\<rparr>),
      select_modules = Rejected ''offline'',
      select_study_sessions = (\<lambda>u. Rejected ''offline''),
      insert_study_session =
        (\<lambda>row. Resolved \<lparr>data = None, error = Some ''insert refused''\<rparr>)\<rparr>
     None 25 ''2024-05-01'' None initial_store)) = []"
  using createStudySession_failure_is_null
    [of "\<lparr>auth_getUser = Resolved None,
      select_modules = Rejected ''offline'',
      select_study_sessions = (\<lambda>u. Rejected ''offline''),
      insert_study_session = (\<lambda>row. Rejected ''offline'')\<rparr>"
     None 25 "''2024-05-01''" None initial_store "''x''" "\<lparr>uid = ''u1''\<rparr>"
     "\<lparr>data = None, error = Some ''insert refused''\<rparr>"]
    createStudySession_failure_is_null
    [of "\<lparr>auth_getUser = Resolved (Some \<lparr>uid = ''u1''\<rparr>),
      select_modules = Rejected ''offline'',
      select_study_sessions = (\<lambda>u. Rejected ''offline''),
      insert_study_session =
        (\<lambda>row. Resolved \<lparr>data = None, error = Some ''insert refused''\<rparr>)\<rparr>"
     None 25 "''2024-05-01''" None initial_store "''insert refused''" "\<lparr>uid = ''u1''\<rparr>"
     "\<lparr>data = None, error = Some ''insert refused''\<rparr>"]
  by (simp add: createStudySession_def createStudySession_try_def initial_store_def)

text \<open>
  Claim C5 as stated fails: with a user signed in and the modules fetched, a sessions
  query that rejects leaves the modules cache filled, not in its prior empty state.
\<close>
theorem fetchData_partial_counterexample:
  "select_study_sessions
     \<lparr>auth_getUser = Resolved (Some \<lparr>uid = ''u1''\<rparr>),
      select_modules = Resolved
        \<lparr>data = Some [\<lparr>mod_id = ''m1'', module_code = ''MA101'', module_title = ''Algebra''\<rparr>],
         error = None\<rparr>,
      select_study_sessions = (\<lambda>u. Rejected ''offline''),
      insert_study_session = (\<lambda>row. Rejected ''offline'')\<rparr> ''u1'' = Rejected ''offline'' \<and>
   modules initial_store = [] \<and>
   modules (snd (fetchData
     \<lparr>auth_getUser = Resolved (Some \<lparr>uid = ''u1''\<rparr>),
      select_modules = Resolved
        \<lparr>data = Some [\<lparr>mod_id = ''m1'', module_code = ''MA101'', module_title = ''Algebra''\<rparr>],
         error = None\<rparr>,
      select_study_sessions = (\<lambda>u. Rejected ''offline''),
      insert_study_session = (\<lambda>row. Rejected ''offline'')\<rparr> initial_store)) =
     [\<lparr>mod_id = ''m1'', module_code = ''MA101'', module_title = ''Algebra''\<rparr>]"
  by (simp add: fetchData_def fetchData_try_def initial_store_def)

text \<open>
  Claim C5, amended. \<open>fetchData\<close> returns on every path, never throws, and ends with
  \<open>isLoading\<close> false. When no user is signed in, or the user lookup or the modules query
  rejects, both caches are left as they were and the failure is reported by a
  notification. When the sessions query rejects, the sessions cache is left as it was,
  while the modules cache already holds what the modules query returned.
\<close>
theorem fetchData_failure_paths:
  "(\<exists>st'. fetchData sb st = (Inr (), st') \<and> \<not> isLoading st') \<and>
   ((auth_getUser sb = Resolved None \<or> auth_getUser sb = Rejected e \<or>
     select_modules sb = Rejected e) \<longrightarrow>
    sessions (snd (fetchData sb st)) = sessions st \<and>
    modules (snd (fetchData sb st)) = modules st \<and>
    notifications (snd (fetchData sb st)) = notifications st @ [Load_Failed]) \<and>
   ((auth_getUser sb = Resolved (Some user) \<and> select_modules sb = Resolved resp \<and>
     select_study_sessions sb (uid user) = Rejected e) \<longrightarrow>
    sessions (snd (fetchData sb st)) = sessions st \<and>
    modules (snd (fetchData sb st)) = (case data resp of None \<Rightarrow> [] | Some ms \<Rightarrow> ms) \<and>
    notifications (snd (fetchData sb st)) = notifications st @ [Load_Failed])"
  by (auto simp: fetchData_def fetchData_try_def Let_def
      split: promise.splits option.splits)

theorem fetchData_failure_paths_witness:
  "fetchData
     \<lparr>auth_getUser = Resolved None,
      select_modules = Resolved
        \<lparr>data = Some [\<lparr>mod_id = ''m1'', module_code = ''MA101'', module_title = ''Algebra''\<rparr>],
         error = None\<rparr>,
      select_study_sessions = (\<lambda>u. Rejected ''offline''),
      insert_study_session = (\<lambda>row. Rejected ''offline'')\<rparr> initial_store =
     (Inr (), initial_store\<lparr>console := [''No active session''],
        notifications := [Load_Failed], isLoading := False\<rparr>) \<and>
   fetchData
     \<lparr>auth_getUser = Resolved (Some \<lparr>uid = ''u1''\<rparr>),
      select_modules = Resolved
        \<lparr>data = Some [\<lparr>mod_id = ''m1'', module_code = ''MA101'', module_title = ''Algebra''\<rparr>],
         error = None\<rparr>,
      select_study_sessions = (\<lambda>u. Rejected ''offline''),
      insert_study_session = (\<lambda>row. Rejected ''offline'')\<rparr> initial_store =
     (Inr (), initial_store\<lparr>
        modules := [\<lparr>mod_id = ''m1'', module_code = ''MA101'', module_title = ''Algebra''\<rparr>],
        console := [''offline''],
        notifications := [Load_Failed], isLoading := False\<rparr>)"
  using fetchData_failure_paths
    [of "\<lparr>auth_getUser = Resolved None,
      select_modules = Resolved
        \<lparr>data = Some [\<lparr>mod_id = ''m1'', module_code = ''MA101'', module_title = ''Algebra''\<rparr>],
         error = None\<rparr>,
      select_study_sessions = (\<lambda>u. Rejected ''offline''),
      insert_study_session = (\<lambda>row. Rejected ''offline'')\<rparr>" initial_store "''x''"
      "\<lparr>uid = ''u1''\<rparr>" "\<lparr>data = None, error = None\<rparr>"]
    fetchData_failure_paths
    [of "\<lparr>auth_getUser = Resolved (Some \<lparr>uid = ''u1''\<rparr>),
      select_modules = Resolved
        \<lparr>data = Some [\<lparr>mod_id = ''m1'', module_code = ''MA101'', module_title = ''Algebra''\<rparr>],
         error = None\<rparr>,
      select_study_sessions = (\<lambda>u. Rejected ''offline''),
      insert_study_session = (\<lambda>row. Rejected ''offline'')\<rparr>" initial_store "''offline''"
      "\<lparr>uid = ''u1''\<rparr>"
      "\<lparr>data = Some [\<lparr>mod_id = ''m1'', module_code = ''MA101'', module_title = ''Algebra''\<rparr>],
         error = None\<rparr>"]
  by (simp add: fetchData_def fetchData_try_def initial_store_def)

end
